theory Spec2Isabelle
  imports Complex_Main
begin

section \<open>Text: whitespace, splitting and stripping\<close>

text \<open>
  The program is \<^verbatim>\<open>src/app.py\<close>. Python strings are modelled as \<^typ>\<open>string\<close>, a list of
  8-bit code points; \<open>isspace\<close> is Python's \<^verbatim>\<open>str.isspace\<close> on that range (the characters
  \<^verbatim>\<open>str.split()\<close> and \<^verbatim>\<open>str.strip()\<close> treat as whitespace). Code points above 255
  are outside the model. Python floats are modelled as exact reals.
\<close>

definition isspace :: "char \<Rightarrow> bool" where
  "isspace ch = (let n = (of_char ch :: nat) in
     (9 \<le> n \<and> n \<le> 13) \<or> (28 \<le> n \<and> n \<le> 31) \<or> n = 32 \<or> n = 133 \<or> n = 160)"

text \<open>\<^verbatim>\<open>s.split()\<close>: the maximal runs of non-whitespace characters, in order. \<open>cur\<close> is the
  word being read.\<close>

fun split_from :: "string \<Rightarrow> string \<Rightarrow> string list" where
  "split_from cur [] = (if cur = [] then [] else [cur])"
| "split_from cur (ch # cs) =
     (if isspace ch then (if cur = [] then split_from [] cs else cur # split_from [] cs)
      else split_from (cur @ [ch]) cs)"

definition py_split :: "string \<Rightarrow> string list" where
  "py_split s = split_from [] s"

text \<open>\<^verbatim>\<open>s.strip()\<close>: leading and trailing whitespace removed.\<close>

definition strip :: "string \<Rightarrow> string" where
  "strip s = rev (dropWhile isspace (rev (dropWhile isspace s)))"

text \<open>\<^verbatim>\<open>s.upper()\<close>, on the ASCII letters; the program applies it to its own section titles only.\<close>

definition upper_char :: "char \<Rightarrow> char" where
  "upper_char ch = (let n = (of_char ch :: nat) in
     if 97 \<le> n \<and> n \<le> 122 then char_of (n - 32) else ch)"

definition upper :: "string \<Rightarrow> string" where
  "upper s = map upper_char s"

section \<open>Word wrapping\<close>

text \<open>
  \<^verbatim>\<open>stringWidth(text, font, size)\<close> of reportlab measures a string; the font metrics are not
  part of the repository, so the measurement is a parameter of the model.
\<close>

type_synonym metric = "string \<Rightarrow> string \<Rightarrow> real \<Rightarrow> real"

text \<open>The \<^verbatim>\<open>for w in words\<close> loop of \<^verbatim>\<open>wrap_lines\<close> (lines 21-28), returning the final
  \<open>line\<close> and \<open>lines\<close>. \<^verbatim>\<open>draw_wrapped_text\<close> repeats the same loop (lines 74-81).\<close>

fun wrap_loop :: "metric \<Rightarrow> real \<Rightarrow> string \<Rightarrow> real \<Rightarrow> string list \<Rightarrow> string \<Rightarrow> string list
    \<Rightarrow> string \<times> string list" where
  "wrap_loop stringWidth max_width font fsize [] line lines = (line, lines)"
| "wrap_loop stringWidth max_width font fsize (w # ws) line lines =
     (let test = strip (line @ '' '' @ w) in
      if stringWidth test font fsize \<le> max_width
      then wrap_loop stringWidth max_width font fsize ws test lines
      else wrap_loop stringWidth max_width font fsize ws w
             (if line \<noteq> [] then lines @ [line] else lines))"

text \<open>\<^verbatim>\<open>wrap_lines(text, max_width, font, size)\<close>; \<open>text\<close> is \<^verbatim>\<open>str(text)\<close>, which the
  callers of the model apply.\<close>

definition wrap_lines :: "metric \<Rightarrow> string \<Rightarrow> real \<Rightarrow> string \<Rightarrow> real \<Rightarrow> string list" where
  "wrap_lines stringWidth text max_width font fsize =
     (let words = py_split text in
      if words = [] then []
      else (case wrap_loop stringWidth max_width font fsize words [] [] of
              (line, lines) \<Rightarrow> if line \<noteq> [] then lines @ [line] else lines))"

text \<open>Joining lines with single spaces, \<^verbatim>\<open>" ".join(lines)\<close>: the operation the wrapping
  properties are stated with.\<close>

fun join_spaces :: "string list \<Rightarrow> string" where
  "join_spaces [] = []"
| "join_spaces [l] = l"
| "join_spaces (l # m # ls) = l @ '' '' @ join_spaces (m # ls)"

text \<open>A concrete measurement for evaluating examples: the metric of a fixed-pitch font whose
  glyphs are all 600/1000 em wide (reportlab's Courier).\<close>

definition courier_width :: metric where
  "courier_width s font fsize = real (length s) * (600 / 1000) * fsize"

text \<open>Auxiliary notions for the proofs: a word has no whitespace and is not empty; a tight string
  neither starts nor ends with whitespace; \<open>glue\<close> is what the candidate line \<open>test\<close> evaluates to;
  a line is stable when the wrapping loop run on its own words gives the line back.\<close>

definition word :: "string \<Rightarrow> bool" where
  "word w = (w \<noteq> [] \<and> (\<forall>ch \<in> set w. \<not> isspace ch))"

definition tight :: "string \<Rightarrow> bool" where
  "tight s = (s \<noteq> [] \<and> \<not> isspace (hd s) \<and> \<not> isspace (last s))"

definition glue :: "string \<Rightarrow> string \<Rightarrow> string" where
  "glue line w = (if line = [] then w else line @ '' '' @ w)"

definition stable :: "metric \<Rightarrow> real \<Rightarrow> string \<Rightarrow> real \<Rightarrow> string \<Rightarrow> bool" where
  "stable sw mw font fsize l = (wrap_loop sw mw font fsize (py_split l) [] [] = (l, []))"

section \<open>Parsed JSON and the Python operations on it\<close>

text \<open>
  The value \<^verbatim>\<open>json.loads\<close> returns: \<^verbatim>\<open>None\<close>, a bool, an int, a float, a str, a list or a
  dict (keys in insertion order, each key once). Of a float the program only tests whether it
  is zero, so an infinite float or a NaN is any non-zero \<open>JFloat\<close>.
\<close>

datatype json = JNull | JBool bool | JInt int | JFloat real | JStr string
  | JArr "json list" | JObj "(string \<times> json) list"

datatype error = AttributeError | TypeError | KeyError | JSONDecodeError | FileNotFoundError

text \<open>\<^verbatim>\<open>d.get(key, default)\<close>: only a dict has the method.\<close>

fun py_get :: "json \<Rightarrow> string \<Rightarrow> json \<Rightarrow> error + json" where
  "py_get (JObj kvs) key dflt = Inr (case map_of kvs key of Some v \<Rightarrow> v | None \<Rightarrow> dflt)"
| "py_get v key dflt = Inl AttributeError"

text \<open>Truth value of a value, as \<^verbatim>\<open>if v:\<close> and \<^verbatim>\<open>v or []\<close> test it.\<close>

fun py_truthy :: "json \<Rightarrow> bool" where
  "py_truthy JNull = False"
| "py_truthy (JBool b) = b"
| "py_truthy (JInt i) = (i \<noteq> 0)"
| "py_truthy (JFloat r) = (r \<noteq> 0)"
| "py_truthy (JStr s) = (s \<noteq> [])"
| "py_truthy (JArr xs) = (xs \<noteq> [])"
| "py_truthy (JObj kvs) = (kvs \<noteq> [])"

definition py_or :: "json \<Rightarrow> json \<Rightarrow> json" where
  "py_or a b = (if py_truthy a then a else b)"

text \<open>The items a \<^verbatim>\<open>for\<close> loop visits: the elements of a list, the characters of a str, the
  keys of a dict; other values are not iterable.\<close>

fun py_iter :: "json \<Rightarrow> error + json list" where
  "py_iter (JArr xs) = Inr xs"
| "py_iter (JStr s) = Inr (map (\<lambda>ch. JStr [ch]) s)"
| "py_iter (JObj kvs) = Inr (map (\<lambda>kv. JStr (fst kv)) kvs)"
| "py_iter v = Inl TypeError"

text \<open>The items \<^verbatim>\<open>len(v)\<close> and \<^verbatim>\<open>v[i]\<close> with \<open>i < len(v)\<close> give, as the education loop
  reads them: a non-empty dict has a length but no integer key, so the first read raises;
  \<^verbatim>\<open>len\<close> of a number, a bool or \<^verbatim>\<open>None\<close> raises.\<close>

fun py_items :: "json \<Rightarrow> error + json list" where
  "py_items (JArr xs) = Inr xs"
| "py_items (JStr s) = Inr (map (\<lambda>ch. JStr [ch]) s)"
| "py_items (JObj kvs) = (if kvs = [] then Inr [] else Inl KeyError)"
| "py_items v = Inl TypeError"

text \<open>\<^verbatim>\<open>str(v)\<close>: the identity on a str; the text Python gives for any other value is a
  parameter \<open>pystr\<close> of the model.\<close>

fun py_str :: "(json \<Rightarrow> string) \<Rightarrow> json \<Rightarrow> string" where
  "py_str pystr (JStr s) = s"
| "py_str pystr v = pystr v"

section \<open>The canvas\<close>

text \<open>
  The reportlab canvas is modelled by the sequence of calls made on it. Each call is recorded
  together with the value the layout cursor \<open>y\<close> has in the calling function when the call is
  made (\<open>None\<close> where no cursor is in scope). \<open>DrawString\<close> records the value it is given.
\<close>

datatype op = SetFont string real
  | DrawString real real json
  | SetLineWidth real
  | SetStrokeColorRGB real real real
  | Line real real real real
  | Rect real real real real int int
  | ShowPage
  | Save

type_synonym event = "real option \<times> op"
type_synonym canvas = "event list"

text \<open>The texts drawn, in order, and the number of pages: one more than the page breaks (every
  \<^verbatim>\<open>showPage\<close> of the program is followed by further drawing).\<close>

fun drawn_texts :: "canvas \<Rightarrow> json list" where
  "drawn_texts [] = []"
| "drawn_texts ((cur, DrawString x y t) # es) = t # drawn_texts es"
| "drawn_texts (e # es) = drawn_texts es"

definition page_count :: "canvas \<Rightarrow> nat" where
  "page_count c = Suc (length (filter (\<lambda>e. snd e = ShowPage) c))"

section \<open>Constants\<close>

text \<open>From reportlab: \<^verbatim>\<open>inch = 72.0\<close>, \<^verbatim>\<open>cm = inch / 2.54\<close>, \<^verbatim>\<open>mm = cm * 0.1\<close>,
  \<^verbatim>\<open>A4 = (210*mm, 297*mm)\<close>.\<close>

definition inch :: real where "inch = 72"
definition cm :: real where "cm = inch / 2.54"
definition mm :: real where "mm = cm * 0.1"
definition PAGE_W :: real where "PAGE_W = 210 * mm"
definition PAGE_H :: real where "PAGE_H = 297 * mm"
definition MIN_LINE_GAP :: real where "MIN_LINE_GAP = 0.8"

text \<open>The layout constants of \<^verbatim>\<open>create_resume_pdf\<close> (lines 151-156, 191-194, 242-250).\<close>

definition left :: real where "left = 0.5 * cm"
definition right :: real where "right = 0.5 * cm"
definition top_m :: real where "top_m = 0.75 * cm"
definition bottom_m :: real where "bottom_m = 0 * cm"
definition content_w :: real where "content_w = PAGE_W - left - right"
definition label_w :: real where "label_w = 4.2 * cm"
definition gap :: real where "gap = 0.6 * cm"
definition value_x :: real where "value_x = left + label_w + gap"
definition value_w :: real where "value_w = content_w - label_w - gap"
definition col_gap :: real where "col_gap = 0.6 * cm"
definition col_w :: real where "col_w = (content_w - col_gap) / 2"
definition x1 :: real where "x1 = left"
definition x2 :: real where "x2 = left + col_w + col_gap"
definition card_padding :: real where "card_padding = 6"

text \<open>The bullet marker, U+2022, in its UTF-8 bytes; it is only ever drawn.\<close>

definition bullet :: string where
  "bullet = [CHR 0xE2, CHR 0x80, CHR 0xA2]"

section \<open>The layout engine\<close>

text \<open>Every function takes the canvas and returns it with the calls it made appended, next to
  its Python result.\<close>

text \<open>\<^verbatim>\<open>draw_boxed_block\<close> (lines 34-60). The height computed on line 46.\<close>

definition box_height :: "real \<Rightarrow> real \<Rightarrow> real \<Rightarrow> string list \<Rightarrow> real" where
  "box_height padding leading line_gap text_lines =
     padding * 2 + (real (length text_lines) * leading)
       + (real_of_int (max 0 (int (length text_lines) - 1)) * line_gap)"

fun draw_box_lines :: "canvas \<Rightarrow> real \<Rightarrow> real \<Rightarrow> real \<Rightarrow> real \<Rightarrow> string list \<Rightarrow> canvas" where
  "draw_box_lines c y tx ty step [] = c"
| "draw_box_lines c y tx ty step (s # ss) =
     draw_box_lines (c @ [(Some y, DrawString tx ty (JStr s))]) y tx (ty - step) step ss"

definition draw_boxed_block :: "canvas \<Rightarrow> real \<Rightarrow> real \<Rightarrow> real \<Rightarrow> string list \<Rightarrow> real \<Rightarrow> string
    \<Rightarrow> real \<Rightarrow> real \<Rightarrow> real \<Rightarrow> (real \<times> real) \<times> canvas" where
  "draw_boxed_block c x y width lines padding font fsize leading line_gap =
     (let text_lines = lines;
          bh = box_height padding leading line_gap text_lines;
          c = c @ [(Some y, SetLineWidth 0.5), (Some y, SetStrokeColorRGB 0 0 0),
                   (Some y, Rect x (y - bh) width bh 0 0), (Some y, SetFont font fsize)];
          ty = y - padding - fsize;
          c = draw_box_lines c y (x + padding) ty (leading + line_gap) text_lines
      in ((y, bh), c))"

text \<open>\<^verbatim>\<open>draw_wrapped_text\<close> (lines 63-92).\<close>

fun draw_lines :: "canvas \<Rightarrow> real \<Rightarrow> real \<Rightarrow> real \<Rightarrow> string list \<Rightarrow> real \<times> canvas" where
  "draw_lines c x y leading [] = (y, c)"
| "draw_lines c x y leading (s # ss) =
     draw_lines (c @ [(Some y, DrawString x y (JStr s))]) x (y - leading) leading ss"

definition draw_wrapped_text :: "metric \<Rightarrow> (json \<Rightarrow> string) \<Rightarrow> canvas \<Rightarrow> json \<Rightarrow> real \<Rightarrow> real
    \<Rightarrow> real \<Rightarrow> string \<Rightarrow> real \<Rightarrow> real \<Rightarrow> real \<Rightarrow> real \<times> canvas" where
  "draw_wrapped_text stringWidth pystr c text x y max_width font fsize leading min_gap =
     (let c = c @ [(Some y, SetFont font fsize)];
          words = py_split (py_str pystr text)
      in case wrap_loop stringWidth max_width font fsize words [] [] of
           (line, lines) \<Rightarrow>
             (let lines = (if line \<noteq> [] then lines @ [line] else lines)
              in case draw_lines c x y leading lines of
                   (y, c) \<Rightarrow> (y - min_gap, c)))"

text \<open>\<^verbatim>\<open>draw_section_title\<close> (lines 95-98).\<close>

definition draw_section_title :: "canvas \<Rightarrow> string \<Rightarrow> real \<Rightarrow> real \<Rightarrow> real \<Rightarrow> real \<times> canvas" where
  "draw_section_title c title x y fsize =
     (y - (14 + MIN_LINE_GAP),
      c @ [(Some y, SetFont ''Helvetica-Bold'' fsize), (Some y, DrawString x y (JStr (upper title)))])"

text \<open>\<^verbatim>\<open>draw_bullets\<close> (lines 101-119); the defaults of \<^verbatim>\<open>draw_wrapped_text\<close> it relies on
  are written out.\<close>

fun draw_bullets_loop :: "metric \<Rightarrow> (json \<Rightarrow> string) \<Rightarrow> canvas \<Rightarrow> json list \<Rightarrow> real \<Rightarrow> real \<Rightarrow> real
    \<Rightarrow> string \<Rightarrow> real \<Rightarrow> real \<Rightarrow> real \<Rightarrow> real \<times> canvas" where
  "draw_bullets_loop stringWidth pystr c [] x y max_width font fsize leading bullet_indent = (y, c)"
| "draw_bullets_loop stringWidth pystr c (b # bs) x y max_width font fsize leading bullet_indent =
     (let c = c @ [(Some y, DrawString x y (JStr bullet))]
      in case draw_wrapped_text stringWidth pystr c b (x + bullet_indent) y
                (max_width - bullet_indent) font fsize leading MIN_LINE_GAP of
           (y, c) \<Rightarrow>
             draw_bullets_loop stringWidth pystr c bs x (y - MIN_LINE_GAP) max_width font fsize
               leading bullet_indent)"

definition draw_bullets :: "metric \<Rightarrow> (json \<Rightarrow> string) \<Rightarrow> canvas \<Rightarrow> json \<Rightarrow> real \<Rightarrow> real \<Rightarrow> real
    \<Rightarrow> string \<Rightarrow> real \<Rightarrow> real \<Rightarrow> real \<Rightarrow> error + (real \<times> canvas)" where
  "draw_bullets stringWidth pystr c bullets x y max_width font fsize leading bullet_indent =
     (let c = c @ [(Some y, SetFont font fsize)]
      in case py_iter (py_or bullets (JArr [])) of
           Inl e \<Rightarrow> Inl e
         | Inr bs \<Rightarrow>
             Inr (draw_bullets_loop stringWidth pystr c bs x y max_width font fsize leading
                    bullet_indent))"

text \<open>\<^verbatim>\<open>draw_divider\<close> (lines 121-124) and \<^verbatim>\<open>draw_page_border\<close> (lines 126-139), the latter
  with its default margin and thickness.\<close>

definition draw_divider :: "canvas \<Rightarrow> real \<Rightarrow> real \<Rightarrow> real \<Rightarrow> real \<Rightarrow> real \<times> canvas" where
  "draw_divider c x_start x_end y thickness =
     (y - 8, c @ [(Some y, SetLineWidth thickness), (Some y, Line x_start y x_end y)])"

definition draw_page_border :: "canvas \<Rightarrow> real \<Rightarrow> real \<Rightarrow> canvas" where
  "draw_page_border c page_w page_h =
     (let margin = 0.2 * cm; thickness = 0.5
      in c @ [(None, SetLineWidth thickness), (None, SetStrokeColorRGB 0 0 0),
              (None, Rect margin margin (page_w - 1.85 * margin) (page_h - 2 * margin) 1 0)])"

section \<open>The document composer\<close>

text \<open>\<^verbatim>\<open>new_page_if_needed\<close> (lines 160-164).\<close>

definition new_page_if_needed :: "canvas \<Rightarrow> real \<Rightarrow> real \<times> canvas" where
  "new_page_if_needed c ypos =
     (if ypos < bottom_m + 2 * cm then (PAGE_H - top_m, c @ [(Some ypos, ShowPage)])
      else (ypos, c))"

text \<open>The body of \<^verbatim>\<open>create_resume_pdf\<close> is split by its section comments. Header (lines
  167-173).\<close>

definition sec_header :: "canvas \<Rightarrow> json \<Rightarrow> real \<Rightarrow> error + (real \<times> canvas)" where
  "sec_header c data y =
     (let c = c @ [(Some y, SetFont ''Helvetica-Bold'' 16)]
      in case py_get data ''name'' (JStr ''YOUR NAME'') of
           Inl e \<Rightarrow> Inl e
         | Inr name \<Rightarrow>
             (let c = c @ [(Some y, DrawString left y name)];
                  y = y - 15;
                  c = c @ [(Some y, SetFont ''Helvetica'' 9)]
              in case py_get data ''contact'' (JStr ''Location | Phone | Email'') of
                   Inl e \<Rightarrow> Inl e
                 | Inr contact \<Rightarrow> Inr (y - 8, c @ [(Some y, DrawString left y contact)])))"

text \<open>Career objective (lines 176-184).\<close>

definition sec_objective :: "metric \<Rightarrow> (json \<Rightarrow> string) \<Rightarrow> canvas \<Rightarrow> json \<Rightarrow> real
    \<Rightarrow> error + (real \<times> canvas)" where
  "sec_objective stringWidth pystr c data y =
     (case draw_divider c left (left + content_w) y 0.7 of
        (y, c) \<Rightarrow>
          (case new_page_if_needed c (y - 3) of
             (y, c) \<Rightarrow>
               (case draw_section_title c ''CAREER OBJECTIVE'' left y 11 of
                  (y, c) \<Rightarrow>
                    (case py_get data ''career_objective'' (JStr []) of
                       Inl e \<Rightarrow> Inl e
                     | Inr objective \<Rightarrow>
                         (case draw_wrapped_text stringWidth pystr c objective left y content_w
                                 ''Helvetica'' 10 12 MIN_LINE_GAP of
                            (y, c) \<Rightarrow> Inr (y - 10, c))))))"

text \<open>Skills snapshot (lines 187-208).\<close>

fun skills_loop :: "metric \<Rightarrow> (json \<Rightarrow> string) \<Rightarrow> canvas \<Rightarrow> json list \<Rightarrow> real
    \<Rightarrow> error + (real \<times> canvas)" where
  "skills_loop stringWidth pystr c [] y = Inr (y, c)"
| "skills_loop stringWidth pystr c (item # items) y =
     (case new_page_if_needed c y of
        (y, c) \<Rightarrow>
          (case py_get item ''label'' (JStr []) of
             Inl e \<Rightarrow> Inl e
           | Inr label \<Rightarrow>
               (case py_get item ''value'' (JStr []) of
                  Inl e \<Rightarrow> Inl e
                | Inr val \<Rightarrow>
                    (let c = c @ [(Some y, SetFont ''Helvetica-Bold'' 10),
                                  (Some y, DrawString left y label)]
                     in case draw_wrapped_text stringWidth pystr c val value_x y value_w
                               ''Helvetica'' 10 12 MIN_LINE_GAP of
                          (y, c) \<Rightarrow> skills_loop stringWidth pystr c items (y - 2)))))"

definition sec_skills :: "metric \<Rightarrow> (json \<Rightarrow> string) \<Rightarrow> canvas \<Rightarrow> json \<Rightarrow> real
    \<Rightarrow> error + (real \<times> canvas)" where
  "sec_skills stringWidth pystr c data y =
     (case new_page_if_needed c y of
        (y, c) \<Rightarrow>
          (case draw_section_title c ''SKILLS SNAPSHOT'' left y 11 of
             (y, c) \<Rightarrow>
               (case py_get data ''skills_snapshot'' JNull of
                  Inl e \<Rightarrow> Inl e
                | Inr v \<Rightarrow>
                    (case py_iter (py_or v (JArr [])) of
                       Inl e \<Rightarrow> Inl e
                     | Inr items \<Rightarrow>
                         (case skills_loop stringWidth pystr c items y of
                            Inl e \<Rightarrow> Inl e
                          | Inr (y, c) \<Rightarrow> Inr (y - 10, c))))))"

text \<open>Experience (lines 211-235).\<close>

definition exp_block :: "metric \<Rightarrow> (json \<Rightarrow> string) \<Rightarrow> canvas \<Rightarrow> json \<Rightarrow> json \<Rightarrow> json \<Rightarrow> real
    \<Rightarrow> error + (real \<times> canvas)" where
  "exp_block stringWidth pystr c company role_line bullets y =
     (case new_page_if_needed c y of
        (y, c) \<Rightarrow>
          (let c = c @ [(Some y, SetFont ''Helvetica-Bold'' 10.5),
                        (Some y, DrawString left y company)];
               y = y - 13;
               c = c @ [(Some y, SetFont ''Helvetica-Bold'' 10)]
           in case draw_wrapped_text stringWidth pystr c role_line left y content_w
                     ''Helvetica-Bold'' 10 12 MIN_LINE_GAP of
                (y, c) \<Rightarrow>
                  (case draw_bullets stringWidth pystr c bullets left (y - 2) content_w
                          ''Helvetica'' 10 12 10 of
                     Inl e \<Rightarrow> Inl e
                   | Inr (y, c) \<Rightarrow> Inr (y - 6, c))))"

fun experience_loop :: "metric \<Rightarrow> (json \<Rightarrow> string) \<Rightarrow> canvas \<Rightarrow> json list \<Rightarrow> real
    \<Rightarrow> error + (real \<times> canvas)" where
  "experience_loop stringWidth pystr c [] y = Inr (y, c)"
| "experience_loop stringWidth pystr c (ex # exs) y =
     (case py_get ex ''company'' (JStr []) of
        Inl e \<Rightarrow> Inl e
      | Inr company \<Rightarrow>
          (case py_get ex ''role_line'' (JStr []) of
             Inl e \<Rightarrow> Inl e
           | Inr role_line \<Rightarrow>
               (case py_get ex ''bullets'' (JArr []) of
                  Inl e \<Rightarrow> Inl e
                | Inr bullets \<Rightarrow>
                    (case exp_block stringWidth pystr c company role_line bullets y of
                       Inl e \<Rightarrow> Inl e
                     | Inr (y, c) \<Rightarrow> experience_loop stringWidth pystr c exs y))))"

definition sec_experience :: "metric \<Rightarrow> (json \<Rightarrow> string) \<Rightarrow> canvas \<Rightarrow> json \<Rightarrow> real
    \<Rightarrow> error + (real \<times> canvas)" where
  "sec_experience stringWidth pystr c data y =
     (case new_page_if_needed c y of
        (y, c) \<Rightarrow>
          (case draw_section_title c ''EXPERIENCE'' left y 11 of
             (y, c) \<Rightarrow>
               (case py_get data ''experience'' JNull of
                  Inl e \<Rightarrow> Inl e
                | Inr v \<Rightarrow>
                    (case py_iter (py_or v (JArr [])) of
                       Inl e \<Rightarrow> Inl e
                     | Inr exs \<Rightarrow> experience_loop stringWidth pystr c exs y))))"

text \<open>Education (lines 238-308). The lines of one card: degree then details, each wrapped to
  the column width less the padding (lines 267-273, 276-281).\<close>

definition card_lines :: "metric \<Rightarrow> (json \<Rightarrow> string) \<Rightarrow> json \<Rightarrow> error + string list" where
  "card_lines stringWidth pystr item =
     (case py_get item ''degree'' (JStr []) of
        Inl e \<Rightarrow> Inl e
      | Inr deg \<Rightarrow>
          (case py_get item ''details'' (JStr []) of
             Inl e \<Rightarrow> Inl e
           | Inr det \<Rightarrow>
               Inr (wrap_lines stringWidth (py_str pystr deg) (col_w - 2 * card_padding)
                      ''Helvetica'' 8.5
                    @ wrap_lines stringWidth (py_str pystr det) (col_w - 2 * card_padding)
                      ''Helvetica'' 8.5)))"

text \<open>The padding of the two line blocks to the same number of lines (lines 284-288);
  \<open>has_right\<close> is the truth value of \<^verbatim>\<open>right_item\<close>.\<close>

definition pad_cards :: "string list \<Rightarrow> string list \<Rightarrow> bool \<Rightarrow> string list \<times> string list" where
  "pad_cards left_lines right_lines has_right =
     (let max_lines = max (length left_lines) (if has_right then length right_lines else 0);
          left_lines = (if length left_lines < max_lines
                        then left_lines @ replicate (max_lines - length left_lines) []
                        else left_lines);
          right_lines = (if has_right \<and> length right_lines < max_lines
                         then right_lines @ replicate (max_lines - length right_lines) []
                         else right_lines)
      in (left_lines, right_lines))"

text \<open>The drawing of one row and its height (lines 291-303).\<close>

definition draw_row :: "canvas \<Rightarrow> real \<Rightarrow> string list \<Rightarrow> string list \<Rightarrow> bool \<Rightarrow> real \<times> canvas" where
  "draw_row c y left_lines right_lines has_right =
     (case draw_boxed_block c x1 y col_w left_lines card_padding ''Helvetica'' 8.5 11 0 of
        ((y_after_left, h_left), c) \<Rightarrow>
          if has_right
          then (case draw_boxed_block c x2 y col_w right_lines card_padding ''Helvetica'' 8.5 11 0 of
                  ((y_after_right, h_right), c) \<Rightarrow> (max h_left h_right, c))
          else (h_left, c))"

text \<open>One iteration of the \<^verbatim>\<open>while\<close> loop (lines 257-306); \<open>right_item\<close> is \<^verbatim>\<open>None\<close> when
  there is no second entry.\<close>

definition education_row :: "metric \<Rightarrow> (json \<Rightarrow> string) \<Rightarrow> canvas \<Rightarrow> json \<Rightarrow> json \<Rightarrow> real
    \<Rightarrow> error + (real \<times> canvas)" where
  "education_row stringWidth pystr c left_item right_item y =
     (case (if y < bottom_m + 4 * cm then (PAGE_H - top_m, c @ [(Some y, ShowPage)]) else (y, c)) of
        (y, c) \<Rightarrow>
          (case card_lines stringWidth pystr left_item of
             Inl e \<Rightarrow> Inl e
           | Inr left_lines \<Rightarrow>
               (case (if py_truthy right_item then card_lines stringWidth pystr right_item
                      else Inr []) of
                  Inl e \<Rightarrow> Inl e
                | Inr right_lines \<Rightarrow>
                    (case pad_cards left_lines right_lines (py_truthy right_item) of
                       (left_lines, right_lines) \<Rightarrow>
                         (case draw_row c y left_lines right_lines (py_truthy right_item) of
                            (row_height, c) \<Rightarrow> Inr (y - row_height - 10, c))))))"

text \<open>The loop itself: \<open>i\<close> advances by two, so the entries are taken in pairs.\<close>

fun education_rows :: "metric \<Rightarrow> (json \<Rightarrow> string) \<Rightarrow> canvas \<Rightarrow> json list \<Rightarrow> real
    \<Rightarrow> error + (real \<times> canvas)" where
  "education_rows stringWidth pystr c [] y = Inr (y, c)"
| "education_rows stringWidth pystr c [left_item] y =
     education_row stringWidth pystr c left_item JNull y"
| "education_rows stringWidth pystr c (left_item # right_item # rest) y =
     (case education_row stringWidth pystr c left_item right_item y of
        Inl e \<Rightarrow> Inl e
      | Inr (y, c) \<Rightarrow> education_rows stringWidth pystr c rest y)"

definition sec_education :: "metric \<Rightarrow> (json \<Rightarrow> string) \<Rightarrow> canvas \<Rightarrow> json \<Rightarrow> real
    \<Rightarrow> error + (real \<times> canvas)" where
  "sec_education stringWidth pystr c data y =
     (case draw_section_title c ''EDUCATION'' left y 11 of
        (y, c) \<Rightarrow>
          (case py_get data ''education'' (JArr []) of
             Inl e \<Rightarrow> Inl e
           | Inr v \<Rightarrow>
               (case py_items (py_or v (JArr [])) of
                  Inl e \<Rightarrow> Inl e
                | Inr edu_items \<Rightarrow> education_rows stringWidth pystr c edu_items (y + 15))))"

text \<open>Certifications (lines 319-325) and references (lines 327-334).\<close>

definition sec_certifications :: "metric \<Rightarrow> (json \<Rightarrow> string) \<Rightarrow> canvas \<Rightarrow> json \<Rightarrow> real
    \<Rightarrow> error + (real \<times> canvas)" where
  "sec_certifications stringWidth pystr c data y =
     (case py_get data ''certifications'' JNull of
        Inl e \<Rightarrow> Inl e
      | Inr v \<Rightarrow>
          (let certs = py_or v (JArr [])
           in if py_truthy certs
              then (case new_page_if_needed c y of
                      (y, c) \<Rightarrow>
                        (case draw_section_title c ''CERTIFICATIONS'' left y 11 of
                           (y, c) \<Rightarrow>
                             (case draw_bullets stringWidth pystr c certs left y content_w
                                     ''Helvetica'' 10 12 10 of
                                Inl e \<Rightarrow> Inl e
                              | Inr (y, c) \<Rightarrow>
                                  (case draw_divider c left (left + content_w) y 0.7 of
                                     (y, c) \<Rightarrow> Inr (y - 0, c)))))
              else Inr (y, c)))"

fun references_loop :: "metric \<Rightarrow> (json \<Rightarrow> string) \<Rightarrow> canvas \<Rightarrow> json list \<Rightarrow> real \<Rightarrow> real \<times> canvas" where
  "references_loop stringWidth pystr c [] y = (y, c)"
| "references_loop stringWidth pystr c (r # rs) y =
     (case new_page_if_needed c y of
        (y, c) \<Rightarrow>
          (case draw_wrapped_text stringWidth pystr c r left y content_w ''Helvetica'' 8 6
                  MIN_LINE_GAP of
             (y, c) \<Rightarrow> references_loop stringWidth pystr c rs (y - 4)))"

definition sec_references :: "metric \<Rightarrow> (json \<Rightarrow> string) \<Rightarrow> canvas \<Rightarrow> json \<Rightarrow> real
    \<Rightarrow> error + (real \<times> canvas)" where
  "sec_references stringWidth pystr c data y =
     (case py_get data ''references'' JNull of
        Inl e \<Rightarrow> Inl e
      | Inr v \<Rightarrow>
          (let refs = py_or v (JArr [])
           in if py_truthy refs
              then (case new_page_if_needed c y of
                      (y, c) \<Rightarrow>
                        (case draw_section_title c ''REFERENCE'' left (y - 2) 11 of
                           (y, c) \<Rightarrow>
                             (case py_iter refs of
                                Inl e \<Rightarrow> Inl e
                              | Inr rs \<Rightarrow> Inr (references_loop stringWidth pystr c rs y))))
              else Inr (y, c)))"

text \<open>The whole render pass on the parsed document, from the new canvas (line 147) to
  \<^verbatim>\<open>c.save()\<close> (line 336): the calls made on the canvas, or the exception raised.\<close>

definition render :: "metric \<Rightarrow> (json \<Rightarrow> string) \<Rightarrow> json \<Rightarrow> error + canvas" where
  "render stringWidth pystr data =
     (let c = draw_page_border [] PAGE_W PAGE_H;
          y = PAGE_H - top_m
      in case sec_header c data y of
           Inl e \<Rightarrow> Inl e
         | Inr (y, c) \<Rightarrow>
        (case sec_objective stringWidth pystr c data y of
           Inl e \<Rightarrow> Inl e
         | Inr (y, c) \<Rightarrow>
        (case sec_skills stringWidth pystr c data y of
           Inl e \<Rightarrow> Inl e
         | Inr (y, c) \<Rightarrow>
        (case sec_experience stringWidth pystr c data y of
           Inl e \<Rightarrow> Inl e
         | Inr (y, c) \<Rightarrow>
        (case sec_education stringWidth pystr c data y of
           Inl e \<Rightarrow> Inl e
         | Inr (y, c) \<Rightarrow>
        (case sec_certifications stringWidth pystr c data y of
           Inl e \<Rightarrow> Inl e
         | Inr (y, c) \<Rightarrow>
        (case sec_references stringWidth pystr c data y of
           Inl e \<Rightarrow> Inl e
         | Inr (y, c) \<Rightarrow> Inr (c @ [(Some y, Save)]))))))))"

section \<open>Reading a render result\<close>

text \<open>The texts drawn and the number of pages of a completed pass (none and zero when the pass
  raised), and the minimal document of the round-trip property.\<close>

definition texts_of :: "error + canvas \<Rightarrow> json list" where
  "texts_of r = (case r of Inl e \<Rightarrow> [] | Inr c \<Rightarrow> drawn_texts c)"

definition pages_of :: "error + canvas \<Rightarrow> nat" where
  "pages_of r = (case r of Inl e \<Rightarrow> 0 | Inr c \<Rightarrow> page_count c)"

definition minimal_document :: json where
  "minimal_document = JObj [(''name'', JStr ''A''), (''contact'', JStr ''b@x.com''),
     (''career_objective'', JStr ''Hello world'')]"


section \<open>The cursor along a trace\<close>















section \<open>The editing page\<close>

text \<open>
  The files are a map from path to content. \<^verbatim>\<open>json.loads\<close>, \<^verbatim>\<open>json.dumps\<close> and the bytes
  reportlab writes for a canvas are parameters. \<^verbatim>\<open>create_resume_pdf\<close> (lines 142-337) reads
  and parses the input file, renders, and writes the output file when it saves the canvas.
\<close>

type_synonym files = "string \<rightharpoonup> string"

definition create_resume_pdf :: "(string \<Rightarrow> error + json) \<Rightarrow> metric \<Rightarrow> (json \<Rightarrow> string)
    \<Rightarrow> (canvas \<Rightarrow> string) \<Rightarrow> files \<Rightarrow> string \<Rightarrow> string \<Rightarrow> error + files" where
  "create_resume_pdf loads stringWidth pystr pdf fs json_path output_path =
     (case fs json_path of
        None \<Rightarrow> Inl FileNotFoundError
      | Some content \<Rightarrow>
          (case loads content of
             Inl e \<Rightarrow> Inl e
           | Inr data \<Rightarrow>
               (case render stringWidth pystr data of
                  Inl e \<Rightarrow> Inl e
                | Inr c \<Rightarrow> Inr (fs(output_path \<mapsto> pdf c)))))"

text \<open>What one run of the Streamlit script shows: \<^verbatim>\<open>st.error\<close> with a literal message or with
  the text of an exception, \<^verbatim>\<open>st.success\<close>, and \<^verbatim>\<open>st.download_button\<close> with its data,
  file name and MIME type.\<close>

datatype widget = StError string | StException error | StSuccess string
  | StDownload string string string

definition JSON_PATH :: string where "JSON_PATH = ''resume_data.json''"
definition OUTPUT_PDF :: string where "OUTPUT_PDF = ''Rachit_Sharma_Resume_Generated.pdf''"

text \<open>
  The body of the Generate button (lines 369-383). The call on lines 377-379 is read with its
  closing parenthesis, which the source lacks, put back after the \<^verbatim>\<open>output_path\<close> argument.
  \<open>create_pdf\<close> stands for \<^verbatim>\<open>create_resume_pdf\<close>, so that a result that does not depend on it
  shows that no render was attempted.
\<close>

definition generate :: "(string \<Rightarrow> error + json) \<Rightarrow> (json \<Rightarrow> nat \<Rightarrow> string)
    \<Rightarrow> (files \<Rightarrow> string \<Rightarrow> string \<Rightarrow> error + files) \<Rightarrow> files \<Rightarrow> string
    \<Rightarrow> widget list \<times> files" where
  "generate loads dumps create_pdf fs edited_json =
     (case loads edited_json of
        Inl e \<Rightarrow> ([StException e], fs)
      | Inr data \<Rightarrow>
          (let fs = fs(JSON_PATH \<mapsto> dumps data 2)
           in case create_pdf fs ''resume_data.json'' ''RachitS_Resume.pdf'' of
                Inl e \<Rightarrow> ([StException e], fs)
              | Inr fs \<Rightarrow> ([StSuccess ''PDF generated successfully!''], fs)))"

text \<open>One run of the script (lines 356-391): \<open>edited_json\<close> is the text of the editor and
  \<open>clicked\<close> tells whether the run was started by the Generate button.\<close>

definition page :: "(string \<Rightarrow> error + json) \<Rightarrow> (json \<Rightarrow> nat \<Rightarrow> string)
    \<Rightarrow> (files \<Rightarrow> string \<Rightarrow> string \<Rightarrow> error + files) \<Rightarrow> files \<Rightarrow> string \<Rightarrow> bool
    \<Rightarrow> widget list \<times> files" where
  "page loads dumps create_pdf fs edited_json clicked =
     (if fs JSON_PATH = None then ([StError ''resume_data.json not found in repo root''], fs)
      else (case (if clicked then generate loads dumps create_pdf fs edited_json else ([], fs)) of
              (ws, fs) \<Rightarrow>
                (case fs OUTPUT_PDF of
                   None \<Rightarrow> (ws, fs)
                 | Some bytes \<Rightarrow> (ws @ [StDownload bytes OUTPUT_PDF ''application/pdf''], fs))))"

definition app :: "(string \<Rightarrow> error + json) \<Rightarrow> (json \<Rightarrow> nat \<Rightarrow> string) \<Rightarrow> metric
    \<Rightarrow> (json \<Rightarrow> string) \<Rightarrow> (canvas \<Rightarrow> string) \<Rightarrow> files \<Rightarrow> string \<Rightarrow> bool
    \<Rightarrow> widget list \<times> files" where
  "app loads dumps stringWidth pystr pdf fs edited_json clicked =
     page loads dumps (create_resume_pdf loads stringWidth pystr pdf) fs edited_json clicked"

text \<open>Stand-ins for the parameters in the examples: a parser that knows the empty object and
  rejects every other text, a printer and a PDF writer with fixed outputs; and the text
  \<^verbatim>\<open>{"name":}\<close>.\<close>

definition loads_example :: "string \<Rightarrow> error + json" where
  "loads_example s = (if s = ''{}'' then Inr (JObj []) else Inl JSONDecodeError)"

definition dumps_example :: "json \<Rightarrow> nat \<Rightarrow> string" where
  "dumps_example v indent = ''{}''"

definition pdf_example :: "canvas \<Rightarrow> string" where
  "pdf_example c = ''%PDF''"

definition invalid_text :: string where
  "invalid_text = ''{'' @ [CHR 0x22] @ ''name'' @ [CHR 0x22] @ '':}''"

section \<open>Properties of splitting and wrapping\<close>

lemma split_from_nonempty: "w \<in> set (split_from cur s) \<Longrightarrow> w \<noteq> []"
proof (induction s arbitrary: cur)
  case Nil
  then show ?case by (simp split: if_splits)
next
  case (Cons ch cs)
  show ?case
  proof (cases "isspace ch")
    case True
    with Cons.prems have "w = cur \<and> cur \<noteq> [] \<or> w \<in> set (split_from [] cs)"
      by (simp split: if_splits)
    then show ?thesis using Cons.IH by blast
  next
    case False
    with Cons.prems have "w \<in> set (split_from (cur @ [ch]) cs)" by simp
    then show ?thesis by (rule Cons.IH)
  qed
qed

lemma split_from_nospace:
  "w \<in> set (split_from cur s) \<Longrightarrow> \<forall>ch \<in> set cur. \<not> isspace ch \<Longrightarrow> \<forall>ch \<in> set w. \<not> isspace ch"
proof (induction s arbitrary: cur)
  case Nil
  then show ?case by (simp split: if_splits)
next
  case (Cons ch cs)
  show ?case
  proof (cases "isspace ch")
    case True
    with Cons.prems(1) have "w = cur \<or> w \<in> set (split_from [] cs)"
      by (simp split: if_splits)
    then show ?thesis using Cons.IH [of "[]"] Cons.prems(2) by auto
  next
    case False
    with Cons.prems(1) have "w \<in> set (split_from (cur @ [ch]) cs)" by simp
    moreover from False Cons.prems(2) have "\<forall>c \<in> set (cur @ [ch]). \<not> isspace c" by simp
    ultimately show ?thesis by (rule Cons.IH)
  qed
qed

lemma py_split_words: "w \<in> set (py_split s) \<Longrightarrow> word w"
  using split_from_nonempty [of w "[]" s] split_from_nospace [of w "[]" s]
  by (simp add: py_split_def word_def)

lemma split_from_space:
  "isspace ch \<Longrightarrow> split_from cur (a @ ch # b) = split_from cur a @ split_from [] b"
  by (induction a arbitrary: cur) auto

lemma py_split_space: "isspace ch \<Longrightarrow> py_split (a @ ch # b) = py_split a @ py_split b"
  by (simp add: py_split_def split_from_space)

lemma split_from_word:
  "\<forall>ch \<in> set w. \<not> isspace ch \<Longrightarrow> split_from cur w = (if cur @ w = [] then [] else [cur @ w])"
  by (induction w arbitrary: cur) auto

lemma py_split_word: "word w \<Longrightarrow> py_split w = [w]"
  by (simp add: py_split_def split_from_word word_def)

lemma word_tight: "word w \<Longrightarrow> tight w"
  by (cases w) (auto simp: word_def tight_def)

lemma strip_tight: "tight s \<Longrightarrow> strip s = s"
proof -
  assume t: "tight s"
  then have "dropWhile isspace s = s"
    by (simp add: tight_def dropWhile_eq_self_iff)
  moreover from t have "dropWhile isspace (rev s) = rev s"
    by (simp add: tight_def dropWhile_eq_self_iff hd_rev)
  ultimately show ?thesis by (simp add: strip_def)
qed

lemma space_isspace: "isspace (CHR '' '')"
  by (simp add: isspace_def)

lemma tight_glue: "line = [] \<or> tight line \<Longrightarrow> word w \<Longrightarrow> tight (glue line w)"
  using word_tight [of w] by (auto simp: glue_def tight_def)

lemma strip_glue:
  assumes "line = [] \<or> tight line" and "word w"
  shows "strip (line @ '' '' @ w) = glue line w"
proof (cases "line = []")
  case True
  have "strip ('' '' @ w) = strip w"
    by (simp add: strip_def space_isspace)
  with True show ?thesis
    using strip_tight [OF word_tight [OF assms(2)]] by (simp add: glue_def)
next
  case False
  with assms have "tight (line @ '' '' @ w)"
    using tight_glue [of line w] by (simp add: glue_def)
  with False show ?thesis by (simp add: strip_tight glue_def)
qed

lemma py_split_glue:
  "word w \<Longrightarrow> py_split (glue line w) = py_split line @ [w]"
  using py_split_space [OF space_isspace, of line w]
  by (simp add: glue_def py_split_word) (simp add: py_split_def)

lemma py_split_Nil: "py_split [] = []"
  by (simp add: py_split_def)

lemma wrap_loop_append:
  "wrap_loop sw mw font fsize (xs @ ys) line lines =
     (case wrap_loop sw mw font fsize xs line lines of
        (l, ls) \<Rightarrow> wrap_loop sw mw font fsize ys l ls)"
  by (induction xs arbitrary: line lines) (simp_all add: Let_def)

lemma wrap_loop_invariant:
  assumes "wrap_loop sw mw font fsize ws line lines = (line', lines')"
    and "set ws \<subseteq> A" and "\<forall>w \<in> A. word w"
    and "line = [] \<or> tight line \<and> P line"
    and "\<forall>l \<in> set lines. l \<noteq> [] \<and> P l"
    and fit: "\<And>l w. w \<in> A \<Longrightarrow> l = [] \<or> tight l \<and> P l \<Longrightarrow>
                sw (glue l w) font fsize \<le> mw \<Longrightarrow> P (glue l w)"
    and over: "\<And>l w. w \<in> A \<Longrightarrow> l = [] \<or> tight l \<and> P l \<Longrightarrow>
                \<not> sw (glue l w) font fsize \<le> mw \<Longrightarrow> P w"
  shows "(line' = [] \<or> tight line' \<and> P line') \<and> (\<forall>l \<in> set lines'. l \<noteq> [] \<and> P l)"
  using assms(1,2,4,5)
proof (induction ws arbitrary: line lines)
  case Nil
  then show ?case by simp
next
  case (Cons w ws)
  from Cons.prems(2) assms(3) have wA: "w \<in> A" and ww: "word w" and sub: "set ws \<subseteq> A"
    by auto
  from Cons.prems(3) have lt: "line = [] \<or> tight line" by blast
  have test: "strip (line @ '' '' @ w) = glue line w"
    using strip_glue [OF lt ww] .
  have tg: "tight (glue line w)" using tight_glue [OF lt ww] .
  show ?case
  proof (cases "sw (glue line w) font fsize \<le> mw")
    case True
    with Cons.prems(1) test
    have run: "wrap_loop sw mw font fsize ws (glue line w) lines = (line', lines')"
      by (simp add: Let_def)
    have "P (glue line w)" using fit [OF wA Cons.prems(3) True] .
    with tg have "glue line w = [] \<or> tight (glue line w) \<and> P (glue line w)" by blast
    from Cons.IH [OF run sub this Cons.prems(4)] show ?thesis .
  next
    case False
    with Cons.prems(1) test
    have run: "wrap_loop sw mw font fsize ws w (if line \<noteq> [] then lines @ [line] else lines)
                 = (line', lines')"
      by (simp add: Let_def)
    have "P w" using over [OF wA Cons.prems(3) False] .
    with word_tight [OF ww] have a: "w = [] \<or> tight w \<and> P w" by blast
    have b: "\<forall>l \<in> set (if line \<noteq> [] then lines @ [line] else lines). l \<noteq> [] \<and> P l"
      using Cons.prems(3,4) by auto
    from Cons.IH [OF run sub a b] show ?thesis .
  qed
qed

lemma wrap_loop_words:
  assumes "wrap_loop sw mw font fsize ws line lines = (line', lines')"
    and "\<forall>w \<in> set ws. word w" and "line = [] \<or> tight line"
  shows "concat (map py_split (lines' @ [line'])) = concat (map py_split (lines @ [line])) @ ws"
  using assms
proof (induction ws arbitrary: line lines)
  case Nil
  then show ?case by simp
next
  case (Cons w ws)
  from Cons.prems(2) have ww: "word w" and rest: "\<forall>w \<in> set ws. word w" by auto
  have test: "strip (line @ '' '' @ w) = glue line w"
    using strip_glue [OF Cons.prems(3) ww] .
  have tg: "glue line w = [] \<or> tight (glue line w)"
    using tight_glue [OF Cons.prems(3) ww] by blast
  show ?case
  proof (cases "sw (glue line w) font fsize \<le> mw")
    case True
    with Cons.prems(1) test
    have run: "wrap_loop sw mw font fsize ws (glue line w) lines = (line', lines')"
      by (simp add: Let_def)
    from Cons.IH [OF run rest tg] show ?thesis
      by (simp add: py_split_glue [OF ww])
  next
    case False
    with Cons.prems(1) test
    have run: "wrap_loop sw mw font fsize ws w (if line \<noteq> [] then lines @ [line] else lines)
                 = (line', lines')"
      by (simp add: Let_def)
    have "w = [] \<or> tight w" using word_tight [OF ww] by blast
    from Cons.IH [OF run rest this] show ?thesis
      by (simp add: py_split_word [OF ww] py_split_Nil)
  qed
qed

lemma py_split_join_spaces: "py_split (join_spaces ls) = concat (map py_split ls)"
proof (induction ls rule: join_spaces.induct)
  case 1
  show ?case by (simp add: py_split_Nil)
next
  case (2 l)
  show ?case by simp
next
  case (3 l m ls)
  have "py_split (l @ CHR '' '' # join_spaces (m # ls)) = py_split l @ py_split (join_spaces (m # ls))"
    by (rule py_split_space [OF space_isspace])
  with 3 show ?case by simp
qed

lemma wrap_lines_cases:
  obtains "py_split text = []" and "wrap_lines sw text mw font fsize = []"
  | line lines where "py_split text \<noteq> []"
      and "wrap_loop sw mw font fsize (py_split text) [] [] = (line, lines)"
      and "wrap_lines sw text mw font fsize = (if line \<noteq> [] then lines @ [line] else lines)"
proof (cases "py_split text = []")
  case True
  then have "wrap_lines sw text mw font fsize = []" by (simp add: wrap_lines_def)
  with True show ?thesis by (rule that(1))
next
  case False
  obtain line lines where r: "wrap_loop sw mw font fsize (py_split text) [] [] = (line, lines)"
    by (cases "wrap_loop sw mw font fsize (py_split text) [] []")
  with False have "wrap_lines sw text mw font fsize = (if line \<noteq> [] then lines @ [line] else lines)"
    by (simp add: wrap_lines_def)
  with False r show ?thesis by (rule that(2))
qed

lemma wrap_lines_invariant:
  assumes "l \<in> set (wrap_lines sw text mw font fsize)"
    and fit: "\<And>l w. w \<in> set (py_split text) \<Longrightarrow> l = [] \<or> tight l \<and> P l \<Longrightarrow>
                sw (glue l w) font fsize \<le> mw \<Longrightarrow> P (glue l w)"
    and over: "\<And>l w. w \<in> set (py_split text) \<Longrightarrow> l = [] \<or> tight l \<and> P l \<Longrightarrow>
                \<not> sw (glue l w) font fsize \<le> mw \<Longrightarrow> P w"
  shows "l \<noteq> [] \<and> P l"
proof (cases rule: wrap_lines_cases [of "text" sw mw font fsize])
  case 1
  with assms(1) show ?thesis by simp
next
  case (2 line lines)
  have "(line = [] \<or> tight line \<and> P line) \<and> (\<forall>l \<in> set lines. l \<noteq> [] \<and> P l)"
  proof (rule wrap_loop_invariant [OF 2(2), where A = "set (py_split text)" and P = P])
    show "set (py_split text) \<subseteq> set (py_split text)" by simp
    show "\<forall>w \<in> set (py_split text). word w" by (simp add: py_split_words)
    show "[] = [] \<or> tight [] \<and> P []" by simp
    show "\<forall>l \<in> set []. l \<noteq> [] \<and> P l" by simp
  qed (fact fit, fact over)
  with assms(1) 2(3) show ?thesis by (auto split: if_splits)
qed



lemma wrap_lines_words:
  "py_split (join_spaces (wrap_lines sw text mw font fsize)) = py_split text"
proof (cases rule: wrap_lines_cases [of "text" sw mw font fsize])
  case 1
  then show ?thesis by (simp add: py_split_Nil)
next
  case (2 line lines)
  have "concat (map py_split (lines @ [line])) = concat (map py_split ([] @ [[]])) @ py_split text"
    by (rule wrap_loop_words [OF 2(2)]) (simp_all add: py_split_words)
  then have "concat (map py_split (if line \<noteq> [] then lines @ [line] else lines)) = py_split text"
    by (cases "line = []") (simp_all add: py_split_Nil)
  with 2(3) show ?thesis by (simp add: py_split_join_spaces)
qed

lemma stable_fit:
  assumes "word w" and "l = [] \<or> tight l \<and> stable sw mw font fsize l"
    and "sw (glue l w) font fsize \<le> mw"
  shows "stable sw mw font fsize (glue l w)"
proof -
  have lt: "l = [] \<or> tight l" using assms(2) by blast
  have first: "wrap_loop sw mw font fsize (py_split l) [] [] = (l, [])"
    using assms(2) by (auto simp: stable_def py_split_Nil)
  have "wrap_loop sw mw font fsize (py_split l @ [w]) [] [] = wrap_loop sw mw font fsize [w] l []"
    by (simp add: wrap_loop_append first)
  also have "\<dots> = (glue l w, [])"
    using assms(3) strip_glue [OF lt assms(1)] by (simp add: Let_def)
  finally show ?thesis by (simp add: stable_def py_split_glue [OF assms(1)])
qed

lemma stable_word: "word w \<Longrightarrow> stable sw mw font fsize w"
proof -
  assume w: "word w"
  have "strip ([] @ '' '' @ w) = glue [] w" by (rule strip_glue [OF _ w]) simp
  then have "strip ('' '' @ w) = w" by (simp add: glue_def)
  then show ?thesis by (simp add: stable_def py_split_word [OF w] Let_def)
qed

lemma wrap_lines_stable:
  assumes "l \<in> set (wrap_lines sw text mw font fsize)"
  shows "wrap_lines sw l mw font fsize = [l]"
proof -
  have "l \<noteq> [] \<and> stable sw mw font fsize l"
    using assms
  proof (rule wrap_lines_invariant)
    fix l w assume "w \<in> set (py_split text)" "l = [] \<or> tight l \<and> stable sw mw font fsize l"
      "sw (glue l w) font fsize \<le> mw"
    then show "stable sw mw font fsize (glue l w)"
      using stable_fit py_split_words by blast
  next
    fix l w assume "w \<in> set (py_split text)"
    then show "stable sw mw font fsize w" using stable_word py_split_words by blast
  qed
  then have ne: "l \<noteq> []" and run: "wrap_loop sw mw font fsize (py_split l) [] [] = (l, [])"
    by (simp_all add: stable_def)
  from ne run have "py_split l \<noteq> []" by auto
  with ne run show ?thesis by (simp add: wrap_lines_def)
qed

lemma wrap_example:
  "wrap_lines courier_width ''Hello  wonderfulworld a b'' 60 ''Courier'' 10
     = [''Hello'', ''wonderfulworld'', ''a b'']"
  by code_simp



text \<open>
  Claim C4. Joining the lines returned by \<open>wrap_lines\<close> with single spaces and splitting the
  result on whitespace gives exactly the whitespace-split words of the original text, in order.
\<close>

theorem wrap_lines_roundtrip:
  "py_split (join_spaces (wrap_lines stringWidth text max_width font fsize)) = py_split text"
  by (rule wrap_lines_words)

text \<open>
  Claim C5. Wrapping is idempotent per line: a line of the output of \<open>wrap_lines\<close> whose measured
  width is at most the maximum width is returned alone and unchanged when wrapped again with the
  same width, font and size. (By \<open>wrap_lines_stable\<close> the same holds for a line that is too wide.)
\<close>

theorem wrap_lines_idempotent:
  "l \<in> set (wrap_lines stringWidth text max_width font fsize) \<Longrightarrow>
   stringWidth l font fsize \<le> max_width \<Longrightarrow>
   wrap_lines stringWidth l max_width font fsize = [l]"
  by (rule wrap_lines_stable)

theorem wrap_lines_idempotent_witness:
  "''a b'' \<in> set (wrap_lines courier_width ''Hello  wonderfulworld a b'' 60 ''Courier'' 10)
   \<and> courier_width ''a b'' ''Courier'' 10 \<le> 60
   \<and> wrap_lines courier_width ''a b'' 60 ''Courier'' 10 = [''a b'']"
  using wrap_lines_idempotent [of "''a b''" courier_width "''Hello  wonderfulworld a b''" 60
      "''Courier''" 10]
  by (simp add: wrap_example courier_width_def)

section \<open>Cards of the education grid\<close>

lemma box_height_eq:
  "snd (fst (draw_boxed_block c x y width lines padding font fsize leading line_gap))
     = box_height padding leading line_gap lines"
  by (simp add: draw_boxed_block_def Let_def)




lemma card_example:
  "card_lines courier_width (\<lambda>v. [])
     (JObj [(''degree'', JStr ''BSc  Physics''), (''details'', JStr ''2019'')])
   = Inr [''BSc Physics'', ''2019'']"
  by code_simp

lemma card_example_right:
  "card_lines courier_width (\<lambda>v. []) (JObj [(''degree'', JStr ''MSc'')]) = Inr [''MSc'']"
  by code_simp

lemma box_height_length:
  "length ls = length ms \<Longrightarrow> box_height p ld g ls = box_height p ld g ms"
  by (simp add: box_height_def)

text \<open>
  Claim C6. When a row of the education grid has two cards, with line blocks of lengths \<open>m\<close>
  and \<open>n\<close>, the row draws the two blocks padded with empty lines to length \<open>max m n\<close>, the box
  heights computed for the two cards are equal (as they are for any padding, leading and line
  gap), and the cursor advances by that height and the gap of 10: the row height is the height
  of either card.
\<close>

theorem education_row_equal_heights:
  assumes "py_truthy right_item"
    and "card_lines stringWidth pystr left_item = Inr left_lines"
    and "card_lines stringWidth pystr right_item = Inr right_lines"
  shows
    "let n = max (length left_lines) (length right_lines);
         padded_left = left_lines @ replicate (n - length left_lines) [];
         padded_right = right_lines @ replicate (n - length right_lines) [];
         (y1, c1) = (if y < bottom_m + 4 * cm then (PAGE_H - top_m, c @ [(Some y, ShowPage)])
                     else (y, c));
         ((ya, h_left), c2) =
            draw_boxed_block c1 x1 y1 col_w padded_left card_padding ''Helvetica'' 8.5 11 0;
         ((yb, h_right), c3) =
            draw_boxed_block c2 x2 y1 col_w padded_right card_padding ''Helvetica'' 8.5 11 0
     in length padded_left = n \<and> length padded_right = n
        \<and> h_left = h_right
        \<and> (\<forall>padding leading line_gap.
              box_height padding leading line_gap padded_left
                = box_height padding leading line_gap padded_right)
        \<and> education_row stringWidth pystr c left_item right_item y
              = Inr (y1 - h_left - 10, c3)
        \<and> education_row stringWidth pystr c left_item right_item y
              = Inr (y1 - h_right - 10, c3)"
proof -
  let ?n = "max (length left_lines) (length right_lines)"
  let ?l = "left_lines @ replicate (?n - length left_lines) []"
  let ?r = "right_lines @ replicate (?n - length right_lines) []"
  have len: "length ?l = ?n" "length ?r = ?n" by simp_all
  have eq: "box_height p ld g ?l = box_height p ld g ?r" for p ld g
    by (rule box_height_length) simp
  have pad: "pad_cards left_lines right_lines True = (?l, ?r)"
    by (simp add: pad_cards_def Let_def)
  obtain y1 c1 where
    p: "(if y < bottom_m + 4 * cm then (PAGE_H - top_m, c @ [(Some y, ShowPage)]) else (y, c))
          = (y1, c1)"
    by (metis prod.exhaust)
  obtain ya hl c2 where
    l: "draw_boxed_block c1 x1 y1 col_w ?l card_padding ''Helvetica'' 8.5 11 0 = ((ya, hl), c2)"
    by (metis prod.exhaust)
  obtain yb hr c3 where
    r: "draw_boxed_block c2 x2 y1 col_w ?r card_padding ''Helvetica'' 8.5 11 0 = ((yb, hr), c3)"
    by (metis prod.exhaust)
  have hl: "hl = box_height card_padding 11 0 ?l"
    using box_height_eq [of c1 x1 y1 col_w ?l card_padding "''Helvetica''" "8.5" 11 0] l by simp
  have hr: "hr = box_height card_padding 11 0 ?r"
    using box_height_eq [of c2 x2 y1 col_w ?r card_padding "''Helvetica''" "8.5" 11 0] r by simp
  have same: "hl = hr" unfolding hl hr by (rule eq)
  have row: "draw_row c1 y1 ?l ?r True = (hl, c3)"
    using l r same by (simp add: draw_row_def)
  have "education_row stringWidth pystr c left_item right_item y = Inr (y1 - hl - 10, c3)"
    using assms p pad row by (simp add: education_row_def)
  with len eq same p l r show ?thesis
    by (simp add: Let_def)
qed

theorem education_row_equal_heights_witness:
  "py_truthy (JObj [(''degree'', JStr ''MSc'')])
   \<and> card_lines courier_width (\<lambda>v. [])
        (JObj [(''degree'', JStr ''BSc  Physics''), (''details'', JStr ''2019'')])
       = Inr [''BSc Physics'', ''2019'']
   \<and> card_lines courier_width (\<lambda>v. []) (JObj [(''degree'', JStr ''MSc'')]) = Inr [''MSc'']
   \<and> education_row courier_width (\<lambda>v. []) []
        (JObj [(''degree'', JStr ''BSc  Physics''), (''details'', JStr ''2019'')])
        (JObj [(''degree'', JStr ''MSc'')]) 700
       = Inr (656,
              snd (draw_boxed_block
                     (snd (draw_boxed_block [] x1 700 col_w [''BSc Physics'', ''2019'']
                             card_padding ''Helvetica'' 8.5 11 0))
                     x2 700 col_w [''MSc'', []] card_padding ''Helvetica'' 8.5 11 0))"
proof -
  have a: "py_truthy (JObj [(''degree'', JStr ''MSc'')])" by simp
  have far: "\<not> (700 :: real) < bottom_m + 4 * cm"
    by (simp add: bottom_m_def cm_def inch_def)
  from education_row_equal_heights [OF a card_example card_example_right, of 700 "[]"] far
  show ?thesis
    by (simp add: a card_example card_example_right Let_def draw_boxed_block_def box_height_def
        card_padding_def split: prod.splits)
qed

text \<open>
  Claim C7 as stated, with the formula \<open>2 \<times> padding + n \<times> leading + (n - 1) \<times> line_gap\<close> also for
  no line, fails: for no line and a line gap of 2 the height computed is 12, not 10.
\<close>

theorem box_height_zero_lines_counterexample:
  "snd (fst (draw_boxed_block [] 0 100 50 [] 6 ''Helvetica'' 9.5 11 2))
     \<noteq> 2 * 6 + real_of_int (int (length ([] :: string list))) * 11
         + real_of_int (int (length ([] :: string list)) - 1) * 2"
  by (simp add: draw_boxed_block_def box_height_def Let_def)

text \<open>
  Claim C7, as amended. For at least one line, \<open>draw_boxed_block\<close> computes the box height
  \<open>2 \<times> padding + n \<times> leading + (n - 1) \<times> line_gap\<close>, \<open>n\<close> the number of lines; for no line the
  height is \<open>2 \<times> padding\<close>, since the number of gaps is \<open>max(0, n - 1)\<close>.
\<close>

theorem draw_boxed_block_height:
  "snd (fst (draw_boxed_block c x y width lines padding font fsize leading line_gap))
     = (if lines = [] then 2 * padding
        else 2 * padding + real_of_int (int (length lines)) * leading
             + real_of_int (int (length lines) - 1) * line_gap)"
  by (cases lines) (simp_all add: draw_boxed_block_def box_height_def Let_def)

theorem draw_boxed_block_height_witness:
  "snd (fst (draw_boxed_block [] 0 100 50 [''a'', ''b'', ''c''] 6 ''Helvetica'' 9.5 11 2)) = 49
   \<and> snd (fst (draw_boxed_block [] 0 100 50 [] 6 ''Helvetica'' 9.5 11 2)) = 12"
  using draw_boxed_block_height [of "[]" 0 100 50 "[''a'', ''b'', ''c'']" 6 "''Helvetica''" "9.5" 11 2]
    draw_boxed_block_height [of "[]" 0 100 50 "[]" 6 "''Helvetica''" "9.5" 11 2]
  by simp



section \<open>The minimal document\<close>

lemma drawn_texts_append: "drawn_texts (es @ fs) = drawn_texts es @ drawn_texts fs"
  by (induction es rule: drawn_texts.induct) simp_all

lemma draw_lines_append:
  "draw_lines c x y leading ls
     = (y - real (length ls) * leading, c @ snd (draw_lines [] x y leading ls))"
proof (induction ls arbitrary: c y)
  case Nil
  show ?case by simp
next
  case (Cons s ss)
  show ?case
    using Cons [of "c @ [(Some y, DrawString x y (JStr s))]" "y - leading"]
      Cons [of "[(Some y, DrawString x y (JStr s))]" "y - leading"]
    by (simp add: algebra_simps)
qed

lemma drawn_texts_draw_lines:
  "drawn_texts (snd (draw_lines c x y leading ls)) = drawn_texts c @ map JStr ls"
proof (induction ls arbitrary: c y)
  case Nil
  show ?case by simp
next
  case (Cons s ss)
  show ?case
    using Cons [of "c @ [(Some y, DrawString x y (JStr s))]" "y - leading"]
    by (simp add: drawn_texts_append)
qed

lemma page_count_draw_lines:
  "page_count (snd (draw_lines c x y leading ls)) = page_count c"
proof (induction ls arbitrary: c y)
  case Nil
  show ?case by simp
next
  case (Cons s ss)
  show ?case
    using Cons [of "c @ [(Some y, DrawString x y (JStr s))]" "y - leading"]
    by (simp add: page_count_def)
qed

lemma draw_wrapped_text_wrap_lines:
  "draw_wrapped_text sw pystr c txt x y mw font fsize leading min_gap
     = (case draw_lines (c @ [(Some y, SetFont font fsize)]) x y leading
               (wrap_lines sw (py_str pystr txt) mw font fsize) of
          (y, c) \<Rightarrow> (y - min_gap, c))"
proof (cases "py_split (py_str pystr txt) = []")
  case True
  then show ?thesis by (simp add: draw_wrapped_text_def wrap_lines_def)
next
  case False
  then show ?thesis
    by (simp add: draw_wrapped_text_def wrap_lines_def Let_def split: prod.splits)
qed

lemma hello_world_lines:
  "wrap_lines sw ''Hello world'' mw font fsize = [''Hello world'']
   \<or> wrap_lines sw ''Hello world'' mw font fsize = [''Hello'', ''world'']"
proof -
  have w: "py_split ''Hello world'' = [''Hello'', ''world'']"
    by (simp add: py_split_def isspace_def)
  have s1: "strip '' Hello'' = ''Hello''" by (simp add: strip_def isspace_def)
  have s2: "strip ''Hello world'' = ''Hello world''" by (simp add: strip_def isspace_def)
  show ?thesis
    by (simp add: wrap_lines_def w s1 s2 Let_def)
qed

lemma upper_titles:
  "upper ''CAREER OBJECTIVE'' = ''CAREER OBJECTIVE''"
  "upper ''SKILLS SNAPSHOT'' = ''SKILLS SNAPSHOT''"
  "upper ''EXPERIENCE'' = ''EXPERIENCE''"
  "upper ''EDUCATION'' = ''EDUCATION''"
  "upper ''CERTIFICATIONS'' = ''CERTIFICATIONS''"
  "upper ''REFERENCE'' = ''REFERENCE''"
  by code_simp+

lemmas page_consts = PAGE_H_def top_m_def bottom_m_def cm_def mm_def inch_def MIN_LINE_GAP_def

lemmas section_defs = sec_header_def sec_objective_def sec_skills_def sec_experience_def
  sec_education_def sec_certifications_def sec_references_def

lemma render_minimal_lines:
  assumes "wrap_lines sw ''Hello world'' content_w ''Helvetica'' 10 = ls"
    and "ls = [''Hello world''] \<or> ls = [''Hello'', ''world'']"
  shows "texts_of (render sw pystr minimal_document)
           = map JStr ([''A'', ''b@x.com'', ''CAREER OBJECTIVE''] @ ls
                       @ [''SKILLS SNAPSHOT'', ''EXPERIENCE'', ''EDUCATION''])
         \<and> pages_of (render sw pystr minimal_document) = 1"
  using assms(2)
proof
  assume "ls = [''Hello world'']"
  with assms(1) show ?thesis
    by (simp add: render_def minimal_document_def section_defs draw_wrapped_text_wrap_lines
        new_page_if_needed_def draw_section_title_def draw_divider_def draw_page_border_def
        upper_titles page_consts texts_of_def pages_of_def page_count_def py_or_def Let_def)
next
  assume "ls = [''Hello'', ''world'']"
  with assms(1) show ?thesis
    by (simp add: render_def minimal_document_def section_defs draw_wrapped_text_wrap_lines
        new_page_if_needed_def draw_section_title_def draw_divider_def draw_page_border_def
        upper_titles page_consts texts_of_def pages_of_def page_count_def py_or_def Let_def)
qed

text \<open>
  Claim C1 as stated, with no skills, experience or education section drawn for the minimal
  document, fails: the titles of the three sections are drawn.
\<close>

theorem minimal_document_sections_counterexample:
  "JStr ''SKILLS SNAPSHOT'' \<in> set (texts_of (render courier_width (\<lambda>v. []) minimal_document))
   \<and> JStr ''EXPERIENCE'' \<in> set (texts_of (render courier_width (\<lambda>v. []) minimal_document))
   \<and> JStr ''EDUCATION'' \<in> set (texts_of (render courier_width (\<lambda>v. []) minimal_document))"
  by code_simp

text \<open>
  Claim C1, as amended. For the minimal document the render pass completes with exactly one
  page, on which it draws, in this order: the header line \<open>A\<close>, the contact line, the title
  \<open>CAREER OBJECTIVE\<close>, the wrapped lines of \<open>Hello world\<close>, and the three section titles
  \<open>SKILLS SNAPSHOT\<close>, \<open>EXPERIENCE\<close> and \<open>EDUCATION\<close>, which are drawn unconditionally, with no
  entry under any of them; no certifications or reference section is drawn.
\<close>

theorem render_minimal_document:
  "texts_of (render stringWidth pystr minimal_document)
     = map JStr ([''A'', ''b@x.com'', ''CAREER OBJECTIVE'']
                 @ wrap_lines stringWidth ''Hello world'' content_w ''Helvetica'' 10
                 @ [''SKILLS SNAPSHOT'', ''EXPERIENCE'', ''EDUCATION''])
   \<and> pages_of (render stringWidth pystr minimal_document) = 1"
  using render_minimal_lines [OF refl hello_world_lines] .

theorem render_minimal_document_witness:
  "texts_of (render courier_width (\<lambda>v. []) minimal_document)
     = [JStr ''A'', JStr ''b@x.com'', JStr ''CAREER OBJECTIVE'', JStr ''Hello world'',
        JStr ''SKILLS SNAPSHOT'', JStr ''EXPERIENCE'', JStr ''EDUCATION'']
   \<and> pages_of (render courier_width (\<lambda>v. []) minimal_document) = 1"
proof -
  have "wrap_lines courier_width ''Hello world'' content_w ''Helvetica'' 10 = [''Hello world'']"
    by code_simp
  with render_minimal_document [of courier_width "\<lambda>v. []"] show ?thesis by simp
qed

section \<open>The cursor invariant\<close>




















































section \<open>The editing page: invalid and valid JSON\<close>

lemma paths_differ:
  "JSON_PATH \<noteq> OUTPUT_PDF" "''RachitS_Resume.pdf'' \<noteq> OUTPUT_PDF"
  by (simp_all add: JSON_PATH_def OUTPUT_PDF_def)

lemma create_resume_pdf_other_path:
  "create_resume_pdf loads sw pystr pdf fs json_path output_path = Inr fs' \<Longrightarrow>
   p \<noteq> output_path \<Longrightarrow> fs' p = fs p"
  by (auto simp: create_resume_pdf_def split: option.splits sum.splits)

lemma generate_output_pdf:
  "snd (generate loads dumps (create_resume_pdf loads' sw pystr pdf) fs edited_json) OUTPUT_PDF
     = fs OUTPUT_PDF"
proof (cases "loads edited_json")
  case (Inl e)
  then show ?thesis by (simp add: generate_def)
next
  case (Inr data)
  let ?fs = "fs(JSON_PATH \<mapsto> dumps data 2)"
  have keep: "?fs OUTPUT_PDF = fs OUTPUT_PDF"
    using paths_differ(1) by simp
  show ?thesis
  proof (cases "create_resume_pdf loads' sw pystr pdf ?fs ''resume_data.json'' ''RachitS_Resume.pdf''")
    case (Inl e)
    with Inr keep show ?thesis by (simp add: generate_def Let_def)
  next
    case (Inr fs')
    from create_resume_pdf_other_path [OF Inr, of OUTPUT_PDF] paths_differ(2)
    have "fs' OUTPUT_PDF = ?fs OUTPUT_PDF" by simp
    with Inr \<open>loads edited_json = Inr data\<close> keep show ?thesis
      by (simp add: generate_def Let_def)
  qed
qed

text \<open>
  Claim C8. When the text submitted with the Generate action is not valid JSON, the run leaves
  every file as it was, in particular the stored input file, shows the text of the parse
  error, and does not depend on the render function: no render is attempted. (After the error
  the page shows the download button only for an output file that was there before.)
\<close>

theorem invalid_json_keeps_files:
  assumes "fs JSON_PATH = Some stored" and "loads edited_json = Inl e"
  shows "page loads dumps create_pdf fs edited_json True
           = (StException e #
                (case fs OUTPUT_PDF of
                   None \<Rightarrow> []
                 | Some bytes \<Rightarrow> [StDownload bytes OUTPUT_PDF ''application/pdf'']),
              fs)"
  using assms by (simp add: page_def generate_def split: option.splits)

theorem invalid_json_keeps_files_witness:
  "[JSON_PATH \<mapsto> ''{}''] JSON_PATH = Some ''{}''
   \<and> loads_example invalid_text = Inl JSONDecodeError
   \<and> page loads_example dumps_example
         (create_resume_pdf loads_example courier_width (\<lambda>v. []) pdf_example)
         [JSON_PATH \<mapsto> ''{}''] invalid_text True
       = ([StException JSONDecodeError], [JSON_PATH \<mapsto> ''{}''])"
proof -
  have a: "[JSON_PATH \<mapsto> ''{}''] JSON_PATH = Some ''{}''" by simp
  have b: "loads_example invalid_text = Inl JSONDecodeError"
    by (simp add: loads_example_def invalid_text_def)
  have c: "[JSON_PATH \<mapsto> ''{}''] OUTPUT_PDF = None"
    using paths_differ(1) by simp
  from invalid_json_keeps_files [where fs = "[JSON_PATH \<mapsto> ''{}'']" and stored = "''{}''"
      and loads = loads_example and edited_json = invalid_text and e = JSONDecodeError
      and dumps = dumps_example
      and create_pdf = "create_resume_pdf loads_example courier_width (\<lambda>v. []) pdf_example",
      OF a b] a b c
  show ?thesis by simp
qed

text \<open>
  Claim C9 fails on the code. Whatever is submitted, a run of the page leaves the file the
  download action serves, \<open>OUTPUT_PDF\<close>, as it was: the Generate action has the PDF written
  to \<^verbatim>\<open>RachitS_Resume.pdf\<close>. After valid JSON and a successful render on files without
  \<open>OUTPUT_PDF\<close>, the success message is shown, the input file holds the re-serialised document,
  the PDF is in \<^verbatim>\<open>RachitS_Resume.pdf\<close>, and there is no download button.
\<close>

theorem generate_never_writes_output_pdf:
  "snd (app loads dumps stringWidth pystr pdf fs edited_json clicked) OUTPUT_PDF = fs OUTPUT_PDF"
proof (cases "fs JSON_PATH = None")
  case True
  then show ?thesis by (simp add: app_def page_def)
next
  case False
  show ?thesis
  proof (cases clicked)
    case False
    with \<open>fs JSON_PATH \<noteq> None\<close> show ?thesis
      by (simp add: app_def page_def split: option.splits)
  next
    case True
    obtain ws fs' where
      g: "generate loads dumps (create_resume_pdf loads stringWidth pystr pdf) fs edited_json
            = (ws, fs')"
      by (metis prod.exhaust)
    from generate_output_pdf [of loads dumps loads stringWidth pystr pdf fs edited_json] g
    have "fs' OUTPUT_PDF = fs OUTPUT_PDF" by simp
    with True g \<open>fs JSON_PATH \<noteq> None\<close> show ?thesis
      by (simp add: app_def page_def split: option.splits)
  qed
qed

lemma generate_example:
  "fst (app loads_example dumps_example courier_width (\<lambda>v. []) pdf_example
          [JSON_PATH \<mapsto> ''{}''] ''{}'' True) = [StSuccess ''PDF generated successfully!'']
   \<and> snd (app loads_example dumps_example courier_width (\<lambda>v. []) pdf_example
          [JSON_PATH \<mapsto> ''{}''] ''{}'' True) JSON_PATH = Some ''{}''
   \<and> snd (app loads_example dumps_example courier_width (\<lambda>v. []) pdf_example
          [JSON_PATH \<mapsto> ''{}''] ''{}'' True) ''RachitS_Resume.pdf'' = Some ''%PDF''
   \<and> snd (app loads_example dumps_example courier_width (\<lambda>v. []) pdf_example
          [JSON_PATH \<mapsto> ''{}''] ''{}'' True) OUTPUT_PDF = None"
  by code_simp

end
